theory Spec2Isabelle
  imports Main "HOL-Library.Sublist"
begin

section \<open>Exceptions and values\<close>

text \<open>
  The exceptions the two modules can raise or let escape. \<open>DBWarning\<close> stands for
  \<^verbatim>\<open>MySQLdb.Warning\<close> / \<^verbatim>\<open>psycopg2.Warning\<close>, \<open>IntegrityError\<close> for the drivers'
  \<^verbatim>\<open>IntegrityError\<close>, and \<open>DBError\<close> for every other subclass of
  \<^verbatim>\<open>MySQLdb.Error\<close> / \<^verbatim>\<open>psycopg2.Error\<close>. The clause
  \<^verbatim>\<open>except (MySQLdb.Error, psycopg2.Error)\<close> catches exactly the exceptions for which
  \<open>is_db_error\<close> holds: the drivers' \<^verbatim>\<open>Warning\<close> classes are not subclasses of
  \<^verbatim>\<open>Error\<close>.
\<close>

datatype exn =
    SubstringNotFoundException
  | AttributeError
  | IndexError
  | ValueError
  | AssertionError
  | OSError
  | RecursionError
  | DBWarning
  | IntegrityError
  | DBError

fun is_db_error :: "exn \<Rightarrow> bool" where
  "is_db_error IntegrityError = True"
| "is_db_error DBError = True"
| "is_db_error _ = False"

text \<open>A decoded field is a Python \<^verbatim>\<open>str\<close> or \<^verbatim>\<open>None\<close>; a record is a list of fields.\<close>

type_synonym field = "string option"
type_synonym row = "field list"

section \<open>Ingester: escaping and de-duplicating a batch\<close>

text \<open>
  \<^verbatim>\<open>marker = tuple([aRec[i] for i in self.parser.primaryKeyIndexes])\<close>:
  an index past the end of the record raises \<^verbatim>\<open>IndexError\<close>.
\<close>

definition key_tuple :: "nat list \<Rightarrow> row \<Rightarrow> row" where
  "key_tuple primaryKeyIndexes aRec = map (\<lambda>i. aRec ! i) primaryKeyIndexes"

definition marker :: "nat list \<Rightarrow> row \<Rightarrow> exn + row" where
  "marker primaryKeyIndexes aRec =
     (if list_all (\<lambda>i. i < length aRec) primaryKeyIndexes
      then Inr (key_tuple primaryKeyIndexes aRec)
      else Inl IndexError)"

text \<open>
  The loop of \<^verbatim>\<open>_escapeRecords\<close>. \<open>keys\<close> is the dictionary of markers seen so far
  (every stored value is \<open>1\<close>), \<open>literal\<close> is the driver's escaping of one field
  (\<^verbatim>\<open>conn.literal\<close> for MySQL, \<^verbatim>\<open>cur.mogrify("%s", (aField,)).decode("utf-8")\<close>
  otherwise). The list \<open>escapedRecords\<close> is returned in the order of the appends.
\<close>

fun escapeRecords_loop ::
  "nat list \<Rightarrow> (field \<Rightarrow> string) \<Rightarrow> (row \<rightharpoonup> nat) \<Rightarrow> row list \<Rightarrow> exn + string list list" where
  "escapeRecords_loop pkIdx literal keys [] = Inr []"
| "escapeRecords_loop pkIdx literal keys (aRec # recordList) =
     (case marker pkIdx aRec of
        Inl e \<Rightarrow> Inl e
      | Inr m \<Rightarrow>
          (if keys m \<noteq> None then escapeRecords_loop pkIdx literal keys recordList
           else (case escapeRecords_loop pkIdx literal (keys(m \<mapsto> 1)) recordList of
                   Inl e \<Rightarrow> Inl e
                 | Inr escapedRecords \<Rightarrow> Inr (map literal aRec # escapedRecords))))"

definition escapeRecords ::
  "nat list \<Rightarrow> (field \<Rightarrow> string) \<Rightarrow> row list \<Rightarrow> exn + string list list" where
  "escapeRecords pkIdx literal recordList = escapeRecords_loop pkIdx literal Map.empty recordList"

section \<open>Strings as Python reads them\<close>

text \<open>
  The decompressed stream is a list of bytes; decoding with \<^verbatim>\<open>str(..., 'utf-8')\<close> is
  modelled as the identity, so a decoded string is the list of the bytes of its UTF-8
  encoding. Prefix tests, splitting on the one-byte delimiters and the removal of
  characters outside an ASCII class are the same on the bytes as on the code points.
  What Python decides per code point is modelled exactly on ASCII text and is marked as
  such below (\<open>isspace\<close>, \<open>strip\<close>, \<open>py_int\<close>, and the lengths and indexes of the date
  clean-up); the one test of the numeric clean-up, \<^verbatim>\<open>v[0].isdigit()\<close>, is modelled for
  every value (\<open>first_isdigit\<close>).
\<close>

text \<open>
  \<open>partition_at sep s\<close> finds the first occurrence of \<open>sep\<close> in \<open>s\<close> and returns what
  stands before and after it: the search behind \<^verbatim>\<open>str.partition\<close>, \<^verbatim>\<open>str.split\<close>
  and \<^verbatim>\<open>str.find\<close>.
\<close>

primrec partition_at :: "string \<Rightarrow> string \<Rightarrow> (string \<times> string) option" where
  "partition_at sep [] = (if sep = [] then Some ([], []) else None)"
| "partition_at sep (c # cs) =
     (if prefix sep (c # cs) then Some ([], drop (length sep) (c # cs))
      else map_option (\<lambda>(a, b). (c # a, b)) (partition_at sep cs))"

text \<open>\<^verbatim>\<open>s.partition(sep)\<close>: \<^verbatim>\<open>ValueError\<close> on an empty separator.\<close>

definition str_partition :: "string \<Rightarrow> string \<Rightarrow> exn + string \<times> string \<times> string" where
  "str_partition s sep =
     (if sep = [] then Inl ValueError
      else (case partition_at sep s of
              None \<Rightarrow> Inr (s, [], [])
            | Some (a, b) \<Rightarrow> Inr (a, sep, b)))"

lemma partition_at_Some:
  "partition_at sep s = Some (a, b) \<Longrightarrow> s = a @ sep @ b"
proof (induction s arbitrary: a)
  case Nil
  then show ?case by (simp split: if_splits)
next
  case (Cons c cs)
  show ?case
  proof (cases "prefix sep (c # cs)")
    case True
    with Cons.prems show ?thesis by (auto simp: prefix_def)
  next
    case False
    with Cons.prems obtain a' where "partition_at sep cs = Some (a', b)" "a = c # a'"
      by auto
    with Cons.IH show ?thesis by simp
  qed
qed

text \<open>\<^verbatim>\<open>s.split(sep)\<close> for a non-empty separator: cut at each occurrence, left to right.\<close>

function str_split_loop :: "string \<Rightarrow> string \<Rightarrow> string list" where
  "str_split_loop sep s =
     (if sep = [] then [s]
      else (case partition_at sep s of
              None \<Rightarrow> [s]
            | Some (a, b) \<Rightarrow> a # str_split_loop sep b))"
  by pat_completeness auto
termination
  by (relation "measure (\<lambda>(sep, s). length s)") (auto dest: partition_at_Some)

declare str_split_loop.simps [simp del]

definition str_split :: "string \<Rightarrow> string \<Rightarrow> exn + string list" where
  "str_split s sep = (if sep = [] then Inl ValueError else Inr (str_split_loop sep s))"

text \<open>\<^verbatim>\<open>str.isspace\<close> and \<^verbatim>\<open>str.strip()\<close> on ASCII text, and \<^verbatim>\<open>str.replace\<close> of
  one ASCII character.\<close>

definition isspace :: "char \<Rightarrow> bool" where
  "isspace c = (c \<in> set [CHR 0x09, CHR 0x0A, CHR 0x0B, CHR 0x0C, CHR 0x0D,
                          CHR 0x1C, CHR 0x1D, CHR 0x1E, CHR 0x1F, CHR 0x20])"

definition strip :: "string \<Rightarrow> string" where
  "strip s = rev (dropWhile isspace (rev (dropWhile isspace s)))"

text \<open>The ten ASCII digits: what \<^verbatim>\<open>[0-9]\<close> matches in a \<^verbatim>\<open>str\<close> pattern.\<close>

definition ascii_digit :: "char \<Rightarrow> bool" where
  "ascii_digit c = (c \<in> set ''0123456789'')"

text \<open>
  The Python runtime a parser runs in. \<open>today_year\<close> is \<^verbatim>\<open>datetime.date.today().year\<close>.
  \<open>frames\<close> is the number of nested calls of \<^verbatim>\<open>nextRecord\<close> the interpreter's recursion
  limit still allows below a call made by \<^verbatim>\<open>nextRecords\<close> (the limit is 1000 unless it is
  raised, and the source never raises it). \<open>nonascii_isdigit v\<close> is \<^verbatim>\<open>v[0].isdigit()\<close>
  for a value \<open>v\<close> that starts with a code point outside ASCII: the answer of the Unicode
  character database, which is not part of the program.
\<close>

record runtime =
  today_year :: int
  frames :: nat
  nonascii_isdigit :: "string \<Rightarrow> bool"

text \<open>\<^verbatim>\<open>v[0].isdigit()\<close> for a non-empty value \<open>v\<close>: the first byte decides when it is ASCII
  (below 128), the character database otherwise.\<close>

definition first_isdigit :: "runtime \<Rightarrow> string \<Rightarrow> bool" where
  "first_isdigit rt v =
     (if (of_char (hd v) :: nat) < 128 then ascii_digit (hd v) else nonascii_isdigit rt v)"

definition replace_char :: "char \<Rightarrow> char \<Rightarrow> string \<Rightarrow> string" where
  "replace_char old new s = map (\<lambda>c. if c = old then new else c) s"

text \<open>
  \<^verbatim>\<open>int(s)\<close> on ASCII text: surrounding whitespace is ignored, one sign is allowed, and
  the digits may be grouped by single underscores; anything else is a \<^verbatim>\<open>ValueError\<close>.
\<close>

fun digits_ok :: "bool \<Rightarrow> string \<Rightarrow> bool" where
  "digits_ok afterDigit [] = afterDigit"
| "digits_ok afterDigit (c # cs) =
     (if ascii_digit c then digits_ok True cs
      else c = CHR ''_'' \<and> afterDigit \<and> digits_ok False cs)"

definition digits_value :: "string \<Rightarrow> int" where
  "digits_value s = foldl (\<lambda>a c. 10 * a + (int (of_char c) - 48)) 0 (filter ascii_digit s)"

definition py_int :: "string \<Rightarrow> exn + int" where
  "py_int s =
     (let t = strip s;
          neg = (t \<noteq> [] \<and> hd t = CHR ''-'');
          body = (if t \<noteq> [] \<and> (hd t = CHR ''-'' \<or> hd t = CHR ''+'') then tl t else t)
      in if digits_ok False body
         then Inr (if neg then - digits_value body else digits_value body)
         else Inl ValueError)"

section \<open>Parser: the stream\<close>

definition TAR_HEADER_SIZE :: nat where
  "TAR_HEADER_SIZE = 512"

definition commentChar :: char where
  "commentChar = CHR ''#''"

definition primaryKeyTag :: string where
  "primaryKeyTag = ''primaryKey:''"

definition dataTypesTag :: string where
  "dataTypesTag = ''dbTypes:''"

definition exportModeTag :: string where
  "exportModeTag = ''exportMode:''"

definition numberTypes :: "string list" where
  "numberTypes = [''INTEGER'', ''INT'', ''BIGINT'', ''TINYINT'']"

definition dateTypes :: "string list" where
  "dateTypes = [''DATE'', ''DATETIME'', ''TIME'', ''TIMESTAMP'']"

text \<open>
  The parser object. \<open>stream\<close> is the whole output of \<^verbatim>\<open>bunzip2 -c\<close> and \<open>rest\<close> the
  part of it not yet read, so \<^verbatim>\<open>eFile.tell()\<close> is \<open>length stream - length rest\<close>.
  \<open>seekable\<close> says whether \<^verbatim>\<open>eFile\<close> supports \<^verbatim>\<open>tell\<close> and \<^verbatim>\<open>seek\<close>: the constructor
  reads from the pipe \<^verbatim>\<open>self.process.stdout\<close>, which does not. \<open>skipped\<close> collects the
  record numbers of the warnings \<^verbatim>\<open>"Skipping record %i because it is malformed"\<close>.
\<close>

record parser =
  dataTypeMap :: "(string \<times> string) list"
  columnNames :: "string list"
  primaryKey :: "string list"
  primaryKeyIndexes :: "nat list"
  dataTypes :: "string list"
  exportMode :: "string option"
  dateColumns :: "nat list"
  numberColumns :: "nat list"
  typeMap :: "string \<rightharpoonup> string"
  recordsExpected :: int
  latestRecordNum :: int
  recordDelim :: string
  fieldDelim :: string
  fileSize :: nat
  stream :: string
  rest :: string
  seekable :: bool
  skipped :: "int list"

text \<open>\<^verbatim>\<open>eFile.readline()\<close>: the bytes up to and including the next newline, or all that
  is left when there is none; the empty string at the end of the stream.\<close>

definition readline :: "string \<Rightarrow> string \<times> string" where
  "readline s =
     (case partition_at [CHR 0x0A] s of
        None \<Rightarrow> (s, [])
      | Some (a, b) \<Rightarrow> (a @ [CHR 0x0A], b))"

lemma readline_length:
  "readline s = (ln, s') \<Longrightarrow> length s = length ln + length s'"
  by (auto simp: readline_def split: option.splits dest: partition_at_Some)

text \<open>
  The loop of \<^verbatim>\<open>nextRowString\<close> on the unread bytes: it returns the lines collected
  in \<open>lst\<close> and the bytes left. A line that is empty or starts with a zero byte ends the
  loop (that line is consumed); a comment line is skipped only while no line of the row
  has been collected and \<open>ignoreComments\<close> is set.
\<close>

function nextRowString_loop ::
  "string \<Rightarrow> bool \<Rightarrow> string list \<Rightarrow> bool \<Rightarrow> string \<Rightarrow> string list \<times> string" where
  "nextRowString_loop rd ignoreComments lst isFirstLine s =
     (case readline s of (ln, s') \<Rightarrow>
        if ln = [] \<or> hd ln = CHR 0x00 then (lst, s')
        else if hd ln = commentChar \<and> isFirstLine \<and> ignoreComments
             then nextRowString_loop rd ignoreComments lst isFirstLine s'
        else if suffix rd ln then (lst @ [ln], s')
        else nextRowString_loop rd ignoreComments (lst @ [ln]) False s')"
  by pat_completeness auto
termination
  by (relation "measure (\<lambda>(rd, ic, lst, first, s). length s)")
     (auto dest!: readline_length[OF sym])

declare nextRowString_loop.simps [simp del]

definition nextRowString :: "bool \<Rightarrow> parser \<Rightarrow> string option \<times> parser" where
  "nextRowString ignoreComments p =
     (case nextRowString_loop (recordDelim p) ignoreComments [] True (rest p) of
        (lst, s') \<Rightarrow>
          (if length lst = 0 then None else Some (concat lst), p\<lparr>rest := s'\<rparr>))"

text \<open>The loop of \<^verbatim>\<open>advanceToNextRecord\<close>: \<open>True\<close> when it left by \<^verbatim>\<open>break\<close> (a
  record was passed), \<open>False\<close> when it returned at the end of the stream.\<close>

function advance_loop :: "string \<Rightarrow> string \<Rightarrow> bool \<times> string" where
  "advance_loop rd s =
     (case readline s of (ln, s') \<Rightarrow>
        if ln = [] then (False, s')
        else if prefix [commentChar] ln then advance_loop rd s'
        else if partition_at rd ln \<noteq> None then (True, s')
        else advance_loop rd s')"
  by pat_completeness auto
termination
  by (relation "measure (\<lambda>(rd, s). length s)")
     (auto dest!: readline_length[OF sym])

declare advance_loop.simps [simp del]

definition advanceToNextRecord :: "parser \<Rightarrow> parser" where
  "advanceToNextRecord p =
     (case advance_loop (recordDelim p) (rest p) of
        (passed, s') \<Rightarrow>
          (if passed then p\<lparr>rest := s', latestRecordNum := latestRecordNum p + 1\<rparr>
           else p\<lparr>rest := s'\<rparr>))"

text \<open>The property \<^verbatim>\<open>seekPos\<close>: \<^verbatim>\<open>tell\<close> and \<^verbatim>\<open>seek\<close> raise \<^verbatim>\<open>OSError\<close> on a stream
  that is not seekable.\<close>

definition getSeekPos :: "parser \<Rightarrow> exn + nat" where
  "getSeekPos p = (if seekable p then Inr (length (stream p) - length (rest p)) else Inl OSError)"

definition setSeekPos :: "nat \<Rightarrow> parser \<Rightarrow> exn + parser" where
  "setSeekPos pos p = (if seekable p then Inr (p\<lparr>rest := drop pos (stream p)\<rparr>) else Inl OSError)"

definition seekToRecord :: "int \<Rightarrow> parser \<Rightarrow> exn + parser" where
  "seekToRecord recordNum p =
     (if recordNum \<le> 0 then Inr p
      else (case getSeekPos p of
              Inl e \<Rightarrow> Inl e
            | Inr pos \<Rightarrow>
                (case (if pos \<noteq> TAR_HEADER_SIZE then setSeekPos TAR_HEADER_SIZE p else Inr p) of
                   Inl e \<Rightarrow> Inl e
                 | Inr p1 \<Rightarrow>
                     Inr ((advanceToNextRecord ^^ nat recordNum) (p1\<lparr>latestRecordNum := 0\<rparr>)))))"

section \<open>Parser: the header\<close>

text \<open>
  \<^verbatim>\<open>splitRow(rowString, requiredPrefix)\<close> for a row that is a string; \<open>None\<close> for
  \<open>requiredPrefix\<close> is also what the empty prefix does (\<^verbatim>\<open>if (requiredPrefix)\<close>).
\<close>

definition splitRow :: "string \<Rightarrow> string \<Rightarrow> string \<Rightarrow> string option \<Rightarrow> exn + string list" where
  "splitRow rd fd rowString requiredPrefix =
     (case (case requiredPrefix of
              None \<Rightarrow> Inr rowString
            | Some pre \<Rightarrow>
                if pre = [] then Inr rowString
                else if \<not> prefix pre rowString then Inl SubstringNotFoundException
                else (case str_partition rowString pre of
                        Inl e \<Rightarrow> Inl e
                      | Inr (a, b, c) \<Rightarrow> Inr c)) of
        Inl e \<Rightarrow> Inl e
      | Inr rowString' \<Rightarrow>
          (case str_partition rowString' rd of
             Inl e \<Rightarrow> Inl e
           | Inr (str, b, c) \<Rightarrow> str_split str fd))"

text \<open>The lookahead loop: \<open>n\<close> calls of \<^verbatim>\<open>nextRowString(ignoreComments=False)\<close>, keeping
  the rows that are neither \<^verbatim>\<open>None\<close> nor empty.\<close>

fun read_firstRows :: "nat \<Rightarrow> parser \<Rightarrow> string list \<times> parser" where
  "read_firstRows 0 p = ([], p)"
| "read_firstRows (Suc n) p =
     (case nextRowString False p of (r, p') \<Rightarrow>
        (case read_firstRows n p' of (rows, p'') \<Rightarrow>
           ((case r of None \<Rightarrow> [] | Some aRow \<Rightarrow> (if aRow = [] then [] else [aRow])) @ rows, p'')))"

text \<open>The loop over \<open>firstRows\<close> that extracts the three tagged declarations.\<close>

fun header_loop :: "parser \<Rightarrow> string list \<Rightarrow> exn + parser" where
  "header_loop p [] = Inr p"
| "header_loop p (aRow # firstRows) =
     (let primStart = commentChar # primaryKeyTag;
          dtStart = commentChar # dataTypesTag;
          exStart = commentChar # exportModeTag
      in if prefix primStart aRow then
           (case splitRow (recordDelim p) (fieldDelim p) aRow (Some primStart) of
              Inl e \<Rightarrow> Inl e
            | Inr pk \<Rightarrow> header_loop (p\<lparr>primaryKey := (if pk = [[]] then [] else pk)\<rparr>) firstRows)
         else if prefix dtStart aRow then
           (case splitRow (recordDelim p) (fieldDelim p) aRow (Some dtStart) of
              Inl e \<Rightarrow> Inl e
            | Inr dts \<Rightarrow>
                header_loop
                  (p\<lparr>dataTypes := map (\<lambda>dt. if dt = ''DECIMAL(9,3)'' then ''DECIMAL(11,3)'' else dt) dts\<rparr>)
                  firstRows)
         else if prefix exStart aRow then
           (case splitRow (recordDelim p) (fieldDelim p) aRow (Some exStart) of
              Inl e \<Rightarrow> Inl e
            | Inr [] \<Rightarrow> Inl IndexError
            | Inr (m # ms) \<Rightarrow> header_loop (p\<lparr>exportMode := Some m\<rparr>) firstRows)
         else header_loop p firstRows)"

text \<open>\<^verbatim>\<open>fixupDataTypes\<close>: the loop runs over \<^verbatim>\<open>zip(columnNames, dataTypes)\<close>, so declared
  types past the last column name are left as they are.\<close>

definition fixup_one :: "string \<times> string \<Rightarrow> string" where
  "fixup_one cd =
     (case cd of (column, dbType) \<Rightarrow>
        if column = ''export_date'' then ''BIGINT''
        else if suffix ''_date'' column then ''DATETIME''
        else if suffix ''_id'' column \<and> dbType \<notin> set [''INTEGER'', ''BIGINT''] then ''BIGINT''
        else if prefix ''is_'' column then ''BOOLEAN''
        else dbType)"

definition fixupDataTypes :: "parser \<Rightarrow> parser" where
  "fixupDataTypes p =
     p\<lparr>dataTypes := map fixup_one (zip (columnNames p) (dataTypes p))
                       @ drop (length (columnNames p)) (dataTypes p)\<rparr>"

text \<open>\<^verbatim>\<open>list.index\<close>: the first position, \<^verbatim>\<open>ValueError\<close> when the value is absent.\<close>

fun index_of :: "'a \<Rightarrow> 'a list \<Rightarrow> nat option" where
  "index_of x [] = None"
| "index_of x (y # ys) = (if x = y then Some 0 else map_option Suc (index_of x ys))"

fun pk_indexes :: "string list \<Rightarrow> string list \<Rightarrow> exn + nat list" where
  "pk_indexes cols [] = Inr []"
| "pk_indexes cols (pk # pks) =
     (case index_of pk cols of
        None \<Rightarrow> Inl ValueError
      | Some i \<Rightarrow> (case pk_indexes cols pks of Inl e \<Rightarrow> Inl e | Inr is \<Rightarrow> Inr (i # is)))"

text \<open>The loop that maps the data types and caches the date and number columns; the
  tests on \<open>dType\<close> read the type before it is mapped.\<close>

definition map_types :: "parser \<Rightarrow> parser" where
  "map_types p =
     (let dts = dataTypes p in
      p\<lparr>dataTypes := map (\<lambda>dType. case map_of (dataTypeMap p) dType of
                                     None \<Rightarrow> dType | Some t \<Rightarrow> t) dts,
        dateColumns := filter (\<lambda>j. dts ! j \<in> set dateTypes) [0..<length dts],
        numberColumns := filter (\<lambda>j. dts ! j \<in> set numberTypes) [0..<length dts]\<rparr>)"

text \<open>
  \<^verbatim>\<open>Parser.__init__\<close>. \<open>content\<close> is what \<^verbatim>\<open>bunzip2 -c filePath\<close> writes, \<open>fsize\<close> is
  \<^verbatim>\<open>os.path.getsize(filePath)\<close>. When the first row is \<^verbatim>\<open>None\<close> (nothing after the tar
  header), \<^verbatim>\<open>splitRow\<close> fails on \<^verbatim>\<open>None.startswith\<close> with \<^verbatim>\<open>AttributeError\<close>.
\<close>

definition Parser_fields :: "string \<Rightarrow> nat \<Rightarrow> (string \<times> string) list \<Rightarrow> string \<Rightarrow> string \<Rightarrow> parser" where
  "Parser_fields content fsize tm rd fd =
     \<lparr>dataTypeMap = tm, columnNames = [], primaryKey = [], primaryKeyIndexes = [],
      dataTypes = [], exportMode = None, dateColumns = [], numberColumns = [],
      typeMap = Map.empty,
      recordsExpected = (if fsize < 100000000 then 499999 else 500001),
      latestRecordNum = 0, recordDelim = rd, fieldDelim = fd, fileSize = fsize,
      stream = content, rest = drop TAR_HEADER_SIZE content, seekable = False, skipped = []\<rparr>"

definition Parser_init ::
  "string \<Rightarrow> nat \<Rightarrow> (string \<times> string) list \<Rightarrow> string \<Rightarrow> string \<Rightarrow> exn + parser" where
  "Parser_init content fsize tm rd fd =
     (case nextRowString False (Parser_fields content fsize tm rd fd) of (line1, p1) \<Rightarrow>
        (case (case line1 of
                 None \<Rightarrow> Inl AttributeError
               | Some l \<Rightarrow> splitRow rd fd l (Some [commentChar])) of
           Inl e \<Rightarrow> Inl e
         | Inr cols \<Rightarrow>
             (case read_firstRows 10 (p1\<lparr>columnNames := cols\<rparr>) of (firstRows, p2) \<Rightarrow>
                (case header_loop p2 firstRows of
                   Inl e \<Rightarrow> Inl e
                 | Inr p3 \<Rightarrow>
                     (let p4 = fixupDataTypes p3 in
                      case pk_indexes (columnNames p4) (primaryKey p4) of
                        Inl e \<Rightarrow> Inl e
                      | Inr is \<Rightarrow>
                          (let p5 = map_types (p4\<lparr>primaryKeyIndexes := is\<rparr>) in
                           Inr (p5\<lparr>typeMap := map_of (rev (zip (columnNames p5) (dataTypes p5)))\<rparr>)))))))"

section \<open>Parser: decoding records\<close>

text \<open>The first steps of \<^verbatim>\<open>nextRecord\<close>: split the row, trim it to the number of column
  names, and replace every empty string outside the primary key by \<^verbatim>\<open>None\<close>.\<close>

definition decode_fields :: "parser \<Rightarrow> string \<Rightarrow> exn + row" where
  "decode_fields p rowString =
     (case splitRow (recordDelim p) (fieldDelim p) rowString None of
        Inl e \<Rightarrow> Inl e
      | Inr rec0 \<Rightarrow>
          (let rec = take (length (columnNames p)) rec0 in
           Inr (map (\<lambda>(i, val). if val = [] \<and> i \<notin> set (primaryKeyIndexes p) then None else Some val)
                  (zip [0..<length rec] rec))))"

text \<open>The body of the date loop for one non-empty value; \<open>year\<close> is
  \<^verbatim>\<open>datetime.date.today().year\<close>.\<close>

definition fix_date_value :: "int \<Rightarrow> string \<Rightarrow> exn + string" where
  "fix_date_value year v =
     (let v1 = strip v in
      case (if length v1 > 3 then
              (if v1 ! 2 \<in> set '' -'' then
                 (let w = ''20'' @ v1 in
                  case py_int (take 4 w) of
                    Inl e \<Rightarrow> Inl e
                  | Inr y \<Rightarrow> Inr (if y > year then ''19'' @ drop 2 w else w))
               else if v1 ! 1 \<in> set '' -'' then
                 (let w = ''200'' @ v1 in
                  case py_int (take 4 w) of
                    Inl e \<Rightarrow> Inl e
                  | Inr y \<Rightarrow> Inr (if y > year then ''199'' @ drop 3 w else w))
               else Inr v1)
            else Inr v1) of
        Inl e \<Rightarrow> Inl e
      | Inr v2 \<Rightarrow>
          (let v3 = replace_char (CHR ''-'') (CHR '' '') (take 19 v2) in
           Inr (if length v3 = 4 then v3 @ ''-01-01'' else v3)))"

fun fix_dates :: "int \<Rightarrow> nat list \<Rightarrow> row \<Rightarrow> exn + row" where
  "fix_dates year [] rec = Inr rec"
| "fix_dates year (j # js) rec =
     (if length rec \<le> j then Inl IndexError
      else (case rec ! j of
              None \<Rightarrow> fix_dates year js rec
            | Some v \<Rightarrow>
                if v = [] then fix_dates year js rec
                else (case fix_date_value year v of
                        Inl e \<Rightarrow> Inl e
                      | Inr v' \<Rightarrow> fix_dates year js (rec[j := Some v']))))"

text \<open>\<^verbatim>\<open>self.nonNumberMatch.sub('', v)\<close> with the pattern \<^verbatim>\<open>[^0-9.-]+\<close>: every character
  that is not an ASCII digit, a dot or a minus sign is removed (every byte of a code point
  outside ASCII is 128 or more, so such a code point goes as a whole).\<close>

definition nonNumberMatch_sub :: "string \<Rightarrow> string" where
  "nonNumberMatch_sub v = filter (\<lambda>c. ascii_digit c \<or> c = CHR ''.'' \<or> c = CHR ''-'') v"

text \<open>The number loop: \<open>Inr None\<close> when a value is left empty, which is where
  \<^verbatim>\<open>nextRecord\<close> logs the warning and returns \<^verbatim>\<open>self.nextRecord()\<close>.\<close>

fun fix_numbers :: "runtime \<Rightarrow> nat list \<Rightarrow> row \<Rightarrow> exn + row option" where
  "fix_numbers rt [] rec = Inr (Some rec)"
| "fix_numbers rt (j # js) rec =
     (if length rec \<le> j then Inl IndexError
      else (case rec ! j of
              None \<Rightarrow> fix_numbers rt js rec
            | Some v \<Rightarrow>
                if v \<noteq> [] \<and> \<not> first_isdigit rt v then
                  (let v' = nonNumberMatch_sub v in
                   if v' = [] then Inr None
                   else fix_numbers rt js (rec[j := Some v']))
                else fix_numbers rt js rec))"

lemma nextRowString_loop_unfold:
  "readline s = (ln, s1) \<Longrightarrow>
   nextRowString_loop rd ic lst first s =
     (if ln = [] \<or> hd ln = CHR 0x00 then (lst, s1)
      else if hd ln = commentChar \<and> first \<and> ic then nextRowString_loop rd ic lst first s1
      else if suffix rd ln then (lst @ [ln], s1)
      else nextRowString_loop rd ic (lst @ [ln]) False s1)"
  by (subst nextRowString_loop.simps) simp

lemma nextRowString_loop_length:
  "nextRowString_loop rd ic lst first s = (lst', s') \<Longrightarrow>
   length s' \<le> length s \<and> (lst' \<noteq> lst \<longrightarrow> length s' < length s)"
proof (induction rd ic lst first s rule: nextRowString_loop.induct)
  case (1 rd ic lst first s)
  obtain ln s1 where rl: "readline s = (ln, s1)" by (cases "readline s")
  from readline_length[OF rl] have len: "length s = length ln + length s1" .
  note eq = "1.prems"[unfolded nextRowString_loop_unfold[OF rl]]
  show ?case
  proof (cases "ln = [] \<or> hd ln = CHR 0x00")
    case True
    with eq len show ?thesis by auto
  next
    case stop: False
    then have pos: "0 < length ln" by simp
    show ?thesis
    proof (cases "hd ln = commentChar \<and> first \<and> ic")
      case True
      with stop eq have "nextRowString_loop rd ic lst first s1 = (lst', s')"
        by (simp split: if_splits)
      from "1.IH"(1)[OF rl[symmetric] stop True this] pos len show ?thesis by arith
    next
      case nocomment: False
      show ?thesis
      proof (cases "suffix rd ln")
        case True
        with stop nocomment eq have "s' = s1" by (auto split: if_splits)
        with pos len show ?thesis by simp
      next
        case False
        with stop nocomment eq
        have "nextRowString_loop rd ic (lst @ [ln]) False s1 = (lst', s')"
          by (simp split: if_splits)
        from "1.IH"(2)[OF rl[symmetric] stop nocomment False this] pos len
        show ?thesis by arith
      qed
    qed
  qed
qed

lemma nextRowString_Some_shorter:
  "nextRowString ic p = (Some r, p') \<Longrightarrow> length (rest p') < length (rest p)"
  by (auto simp: nextRowString_def split: prod.splits if_splits dest: nextRowString_loop_length)

text \<open>
  \<^verbatim>\<open>nextRecord\<close>. The result is the exception raised, \<^verbatim>\<open>None\<close> at the end of the data,
  or the decoded record; the parser is returned as the call leaves it. A malformed record
  is passed over by the nested call \<^verbatim>\<open>return self.nextRecord()\<close>, one more frame on the
  interpreter's stack each time: when no frame is left the call raises
  \<^verbatim>\<open>RecursionError\<close>.
\<close>

function nextRecord :: "runtime \<Rightarrow> parser \<Rightarrow> (exn + row option) \<times> parser" where
  "nextRecord rt p =
     (case nextRowString True p of (rowString, p1) \<Rightarrow>
        (case rowString of
           None \<Rightarrow> (Inr None, p1)
         | Some rs \<Rightarrow>
             if rs = [] then (Inr None, p1)
             else (let p2 = p1\<lparr>latestRecordNum := latestRecordNum p1 + 1\<rparr> in
                   case decode_fields p2 rs of
                     Inl e \<Rightarrow> (Inl e, p2)
                   | Inr rec \<Rightarrow>
                       (case fix_dates (today_year rt) (dateColumns p2) rec of
                          Inl e \<Rightarrow> (Inl e, p2)
                        | Inr rec1 \<Rightarrow>
                            (case fix_numbers rt (numberColumns p2) rec1 of
                               Inl e \<Rightarrow> (Inl e, p2)
                             | Inr None \<Rightarrow>
                                 if frames rt = 0
                                 then (Inl RecursionError,
                                       p2\<lparr>skipped := skipped p2 @ [latestRecordNum p2]\<rparr>)
                                 else nextRecord (rt\<lparr>frames := frames rt - 1\<rparr>)
                                        (p2\<lparr>skipped := skipped p2 @ [latestRecordNum p2]\<rparr>)
                             | Inr (Some rec2) \<Rightarrow> (Inr (Some rec2), p2))))))"
  by pat_completeness auto
termination
  by (relation "measure (\<lambda>(rt, p). frames rt)") auto

declare nextRecord.simps [simp del]

text \<open>\<^verbatim>\<open>nextRecords(maxNum)\<close>: the loop stops at the first result that is \<^verbatim>\<open>None\<close> or an
  empty list (\<^verbatim>\<open>if (not lst): break\<close>).\<close>

fun nextRecords_loop :: "nat \<Rightarrow> runtime \<Rightarrow> parser \<Rightarrow> row list \<Rightarrow> (exn + row list) \<times> parser" where
  "nextRecords_loop 0 rt p records = (Inr records, p)"
| "nextRecords_loop (Suc n) rt p records =
     (case nextRecord rt p of
        (Inl e, p') \<Rightarrow> (Inl e, p')
      | (Inr None, p') \<Rightarrow> (Inr records, p')
      | (Inr (Some lst), p') \<Rightarrow>
          if lst = [] then (Inr records, p')
          else nextRecords_loop n rt p' (records @ [lst]))"

definition nextRecords :: "nat \<Rightarrow> runtime \<Rightarrow> parser \<Rightarrow> (exn + row list) \<times> parser" where
  "nextRecords maxNum rt p = nextRecords_loop maxNum rt p []"

section \<open>Ingester: the store and the job state\<close>

text \<open>
  The statements the ingester sends to the relational store, by their shape; the SQL text
  is built from exactly these parts. \<open>AddPrimaryKey t c cols\<close> is
  \<^verbatim>\<open>ALTER TABLE t ADD CONSTRAINT [c] PRIMARY KEY (cols)\<close>, \<open>RenameTable\<close> and \<open>RenameIndex\<close>
  are \<^verbatim>\<open>ALTER TABLE/INDEX a RENAME [TO] b\<close>, \<open>InsertRows\<close> is the batched
  \<^verbatim>\<open>INSERT/REPLACE [IGNORE] INTO t (cols) VALUES (...), (...) [ON CONFLICT (pk) DO NOTHING]\<close>,
  \<open>CreateTableAs\<close> is \<^verbatim>\<open>CREATE TABLE t [AS] <select>\<close>.
\<close>

datatype stmt =
    DropTableIfExists string
  | CreateTable string "(string \<times> string) list"
  | AddPrimaryKey string "string option" "string list"
  | RenameTable string string
  | RenameIndex string string
  | InsertRows string string string "string list" "string list list" "string list option"
  | CreateTableAs string string
  | CreateIndex string string
  | Analyze string

text \<open>
  The environment of a run, over any type \<open>'w\<close> of store states. \<open>exec\<close> executes one
  statement: it returns the exception the driver raises, if any, and the new state.
  \<open>tableExistsQ\<close> and \<open>columnCountQ\<close> are the two catalog queries, \<open>literal\<close> and
  \<open>mogrify\<close> the drivers' escaping of one field, \<open>now\<close> is \<^verbatim>\<open>datetime.datetime.now()\<close>
  and \<open>runtime\<close> is the Python runtime of the parser. Connections are not modelled:
  \<^verbatim>\<open>connect\<close>, \<^verbatim>\<open>cursor\<close>, \<^verbatim>\<open>commit\<close> and \<^verbatim>\<open>close\<close> always succeed, every
  statement acts on the store when it is executed (also on the PostgreSQL connection
  pool), and the catalog queries do not fail.
\<close>

record 'w backend =
  exec :: "stmt \<Rightarrow> 'w \<Rightarrow> exn option \<times> 'w"
  tableExistsQ :: "string \<Rightarrow> 'w \<Rightarrow> bool"
  columnCountQ :: "string \<Rightarrow> 'w \<Rightarrow> nat"
  literal :: "field \<Rightarrow> string"
  mogrify :: "field \<Rightarrow> string"
  now :: "'w \<Rightarrow> nat"
  runtime :: runtime

record status =
  st_fileName :: string
  st_filePath :: string
  st_lastRecordIngested :: int
  st_startTime :: "nat option"
  st_endTime :: "nat option"
  st_abortTime :: "nat option"
  st_didAbort :: bool

datatype log_event =
    WarnTableMissing string
  | WarnExtraColumns
  | WarnStatement exn
  | ErrorStatement exn
  | ErrorRevert
  | ErrorFatal int

record ingester =
  filePath :: string
  fileName :: string
  tableName :: string
  tableSchema :: "string option"
  tmpTableName :: string
  incTableName :: string
  unionTableName :: string
  dbType :: string
  isPostgresql :: bool
  isMysql :: bool
  lastRecordIngested :: int
  parser :: parser
  startTime :: "nat option"
  endTime :: "nat option"
  abortTime :: "nat option"
  didAbort :: bool
  statusDict :: status
  logged :: "log_event list"

type_synonym 'w run = "ingester \<times> 'w"

definition updateStatusDict :: "ingester \<Rightarrow> ingester" where
  "updateStatusDict ing =
     ing\<lparr>statusDict :=
           \<lparr>st_fileName = fileName ing, st_filePath = filePath ing,
            st_lastRecordIngested = lastRecordIngested ing,
            st_startTime = startTime ing, st_endTime = endTime ing,
            st_abortTime = abortTime ing, st_didAbort = didAbort ing\<rparr>\<rparr>"

text \<open>Plumbing: run one statement, log, and run two steps in sequence (the second only
  when the first raised nothing).\<close>

definition run_stmt :: "'w backend \<Rightarrow> stmt \<Rightarrow> 'w run \<Rightarrow> exn option \<times> 'w run" where
  "run_stmt B st s = (case s of (ing, w) \<Rightarrow> (case exec B st w of (r, w') \<Rightarrow> (r, (ing, w'))))"

definition log_event :: "log_event \<Rightarrow> 'w run \<Rightarrow> 'w run" where
  "log_event ev s = (case s of (ing, w) \<Rightarrow> (ing\<lparr>logged := logged ing @ [ev]\<rparr>, w))"

definition and_then ::
  "('s \<Rightarrow> exn option \<times> 's) \<Rightarrow> ('s \<Rightarrow> exn option \<times> 's) \<Rightarrow> 's \<Rightarrow> exn option \<times> 's" where
  "and_then f g s = (case f s of (None, s') \<Rightarrow> g s' | (Some e, s') \<Rightarrow> (Some e, s'))"

definition skip_step :: "'s \<Rightarrow> exn option \<times> 's" where
  "skip_step s = (None, s)"

section \<open>Ingester: construction\<close>

definition basename :: "string \<Rightarrow> string" where
  "basename path = rev (takeWhile (\<lambda>c. c \<noteq> CHR ''/'') (rev path))"

definition mysql_typeMap :: "(string \<times> string) list" where
  "mysql_typeMap = [(''CLOB'', ''LONGTEXT'')]"

definition postgresql_typeMap :: "(string \<times> string) list" where
  "postgresql_typeMap =
     [(''VARCHAR(1000)'', ''TEXT''), (''VARCHAR(4000)'', ''TEXT''), (''CLOB'', ''LONGTEXT''),
      (''DATETIME'', ''TIMESTAMP''), (''LONGTEXT'', ''TEXT'')]"

text \<open>The table prefix and the schema taken from it:
  \<^verbatim>\<open>tableSchema, pref = pref.split(".")\<close> needs exactly two parts.\<close>

definition prefix_and_schema :: "string option \<Rightarrow> exn + string option \<times> string" where
  "prefix_and_schema tablePrefix =
     (let pref = (case tablePrefix of
                    None \<Rightarrow> []
                  | Some tp \<Rightarrow> if tp \<noteq> [] \<and> last tp \<noteq> CHR ''.'' then tp @ ''_'' else tp)
      in if CHR ''.'' \<in> set pref
         then (case str_split_loop ''.'' pref of
                 [a, b] \<Rightarrow> Inr (Some a, b)
               | _ \<Rightarrow> Inl ValueError)
         else Inr (None, pref))"

text \<open>\<^verbatim>\<open>Ingester.__init__\<close>; \<open>content\<close> and \<open>fsize\<close> are the decompressed stream and the
  size of the file at \<open>path\<close>, as for the parser.\<close>

definition Ingester_init ::
  "string \<Rightarrow> string option \<Rightarrow> string \<Rightarrow> string \<Rightarrow> string \<Rightarrow> string \<Rightarrow> nat \<Rightarrow> exn + ingester" where
  "Ingester_init path tablePrefix dbt rd fd content fsize =
     (let fname = basename path;
          tname0 = (case str_split_loop ''.'' (replace_char (CHR ''-'') (CHR ''_'') fname) of
                      [] \<Rightarrow> [] | t # ts \<Rightarrow> t)
      in case prefix_and_schema tablePrefix of
           Inl e \<Rightarrow> Inl e
         | Inr (schema, pref) \<Rightarrow>
             (let tname = pref @ tname0 in
              case Parser_init content fsize
                     (if dbt = ''postgresql'' then postgresql_typeMap else mysql_typeMap) rd fd of
                Inl e \<Rightarrow> Inl e
              | Inr p \<Rightarrow>
                  Inr (updateStatusDict
                         \<lparr>filePath = path, fileName = fname, tableName = tname,
                          tableSchema = schema,
                          tmpTableName = tname @ ''_tmp'', incTableName = tname @ ''_inc'',
                          unionTableName = tname @ ''_un'', dbType = dbt,
                          isPostgresql = (dbt = ''postgresql''), isMysql = (dbt = ''mysql''),
                          lastRecordIngested = - 1, parser = p,
                          startTime = None, endTime = None, abortTime = None,
                          didAbort = False,
                          statusDict = \<lparr>st_fileName = [], st_filePath = [],
                                        st_lastRecordIngested = 0, st_startTime = None,
                                        st_endTime = None, st_abortTime = None,
                                        st_didAbort = False\<rparr>,
                          logged = []\<rparr>)))"

section \<open>Ingester: creating and populating a table\<close>

definition applyPrimaryKeyConstraints :: "'w backend \<Rightarrow> string \<Rightarrow> 'w run \<Rightarrow> exn option \<times> 'w run" where
  "applyPrimaryKeyConstraints B tname s =
     (case s of (ing, w) \<Rightarrow>
        if primaryKey (parser ing) \<noteq> []
        then run_stmt B (AddPrimaryKey tname
                           (if isPostgresql ing then Some (tname @ ''_pk'') else None)
                           (primaryKey (parser ing))) s
        else (None, s))"

definition createTable :: "'w backend \<Rightarrow> string \<Rightarrow> 'w run \<Rightarrow> exn option \<times> 'w run" where
  "createTable B tname s =
     (case s of (ing, w) \<Rightarrow>
        and_then (run_stmt B (DropTableIfExists tname))
          (and_then (run_stmt B (CreateTable tname
                                   (zip (columnNames (parser ing)) (dataTypes (parser ing)))))
             (applyPrimaryKeyConstraints B tname)) s)"

definition dropTable :: "'w backend \<Rightarrow> string \<Rightarrow> 'w run \<Rightarrow> exn option \<times> 'w run" where
  "dropTable B tname = run_stmt B (DropTableIfExists tname)"

text \<open>\<^verbatim>\<open>_escapeRecords\<close> on the ingester: the primary-key indexes are the parser's, the
  escaping is the driver's.\<close>

definition escapeRecords_of :: "'w backend \<Rightarrow> ingester \<Rightarrow> row list \<Rightarrow> exn + string list list" where
  "escapeRecords_of B ing recordList =
     escapeRecords (primaryKeyIndexes (parser ing))
       (if isMysql ing then literal B else mogrify B) recordList"

definition custom_indexes_sql :: "string \<Rightarrow> string option" where
  "custom_indexes_sql fname =
     (if fname = ''artist_collection'' then Some ''(collection_id)''
      else if fname = ''collection'' then Some ''(lower(name) text_pattern_ops)''
      else if fname = ''artist'' then Some ''(lower(name) text_pattern_ops)''
      else None)"

definition createCustomIndexes :: "'w backend \<Rightarrow> string \<Rightarrow> string \<Rightarrow> 'w run \<Rightarrow> exn option \<times> 'w run" where
  "createCustomIndexes B fname tname s =
     (case s of (ing, w) \<Rightarrow>
        if isPostgresql ing
        then (case custom_indexes_sql fname of
                None \<Rightarrow> (None, s)
              | Some sql \<Rightarrow> run_stmt B (CreateIndex tname sql) s)
        else (None, s))"

lemma nextRowString_rest_le:
  "nextRowString ic p = (r, p') \<Longrightarrow> length (rest p') \<le> length (rest p)"
  by (auto simp: nextRowString_def split: prod.splits if_splits dest: nextRowString_loop_length)

lemma nextRecord_length:
  "nextRecord y p = (r, p') \<Longrightarrow>
   length (rest p') \<le> length (rest p) \<and> ((\<exists>x. r = Inr (Some x)) \<longrightarrow> length (rest p') < length (rest p))"
proof (induction y p arbitrary: r p' rule: nextRecord.induct)
  case (1 y p)
  obtain rowString p1 where nr: "nextRowString True p = (rowString, p1)"
    by (cases "nextRowString True p")
  note le = nextRowString_rest_le[OF nr]
  note eq = "1.prems"[unfolded nextRecord.simps[of y p] nr prod.case]
  show ?case
  proof (cases rowString)
    case None
    with eq le show ?thesis by auto
  next
    case (Some rs)
    from nr Some have lt: "length (rest p1) < length (rest p)"
      by (auto dest: nextRowString_Some_shorter)
    show ?thesis
    proof (cases "rs = []")
      case True
      with eq Some le show ?thesis by auto
    next
      case False
      define p2 where "p2 = p1\<lparr>latestRecordNum := latestRecordNum p1 + 1\<rparr>"
      have r2: "rest p2 = rest p1" by (simp add: p2_def)
      show ?thesis
      proof (cases "\<exists>rec rec1. decode_fields p2 rs = Inr rec \<and>
                       fix_dates (today_year y) (dateColumns p2) rec = Inr rec1 \<and>
                       fix_numbers y (numberColumns p2) rec1 = Inr None")
        case True
        then obtain rec rec1 where d: "decode_fields p2 rs = Inr rec"
          and f: "fix_dates (today_year y) (dateColumns p2) rec = Inr rec1"
          and n: "fix_numbers y (numberColumns p2) rec1 = Inr None" by blast
        show ?thesis
        proof (cases "frames y = 0")
          case True
          with eq Some False d f n lt r2 show ?thesis
            by (auto simp: Let_def p2_def[symmetric])
        next
          case fr: False
          with eq Some False d f n
          have "nextRecord (y\<lparr>frames := frames y - 1\<rparr>)
                  (p2\<lparr>skipped := skipped p2 @ [latestRecordNum p2]\<rparr>) = (r, p')"
            by (simp add: Let_def p2_def)
          from "1.IH"[OF nr[symmetric] Some False p2_def d f n refl fr this] lt r2
          show ?thesis by auto
        qed
      next
        case nrec: False
        with eq Some False lt r2 show ?thesis
          by (auto simp: Let_def p2_def[symmetric] split: sum.splits option.splits if_splits)
      qed
    qed
  qed
qed

lemma nextRecords_loop_length:
  "nextRecords_loop n y p acc = (Inr records, p') \<Longrightarrow>
   length (rest p') \<le> length (rest p) \<and> (records \<noteq> acc \<longrightarrow> length (rest p') < length (rest p))"
proof (induction n arbitrary: p acc)
  case 0
  then show ?case by simp
next
  case (Suc n)
  obtain r p1 where nr: "nextRecord y p = (r, p1)" by (cases "nextRecord y p")
  note len = nextRecord_length[OF nr]
  show ?case
  proof (cases r)
    case (Inl e)
    with Suc.prems nr show ?thesis by simp
  next
    case (Inr ro)
    show ?thesis
    proof (cases ro)
      case None
      with Suc.prems nr Inr len show ?thesis by auto
    next
      case (Some lst)
      show ?thesis
      proof (cases "lst = []")
        case True
        with Suc.prems nr Inr Some len show ?thesis by auto
      next
        case False
        with Suc.prems nr Inr Some
        have "nextRecords_loop n y p1 (acc @ [lst]) = (Inr records, p')" by simp
        from Suc.IH[OF this] len Inr Some show ?thesis by auto
      qed
    qed
  qed
qed

lemma nextRecords_nonempty_shorter:
  "nextRecords n y p = (Inr records, p') \<Longrightarrow> records \<noteq> [] \<Longrightarrow>
   length (rest p') < length (rest p)"
  by (auto simp: nextRecords_def dest: nextRecords_loop_length)

text \<open>
  The \<^verbatim>\<open>while (True)\<close> loop of \<^verbatim>\<open>_populateTable\<close>. Each turn reads up to 10000 records,
  escapes them and sends one \<open>InsertRows\<close> statement; a driver warning and an integrity
  error are logged, any other driver error is logged and raised again, and
  \<open>lastRecordIngested\<close> is set from the parser after every statement that did not raise.
  (The progress message of \<^verbatim>\<open>_checkProgress\<close> is left out.)
\<close>

function populate_loop ::
  "'w backend \<Rightarrow> string \<Rightarrow> string \<Rightarrow> string \<Rightarrow> string list \<Rightarrow> string list option \<Rightarrow> 'w run
   \<Rightarrow> exn option \<times> 'w run" where
  "populate_loop B tname commandString ignoreString cols conflict s =
     (case s of (ing, w) \<Rightarrow>
        (case nextRecords 10000 (runtime B) (parser ing) of
           (Inl e, p') \<Rightarrow> (Some e, (ing\<lparr>parser := p'\<rparr>, w))
         | (Inr records, p') \<Rightarrow>
             if records = [] then (None, (ing\<lparr>parser := p'\<rparr>, w))
             else (case escapeRecords_of B (ing\<lparr>parser := p'\<rparr>) records of
                     Inl e \<Rightarrow> (Some e, (ing\<lparr>parser := p'\<rparr>, w))
                   | Inr escapedRecords \<Rightarrow>
                       (case exec B (InsertRows commandString ignoreString tname cols
                                       escapedRecords conflict) w of
                          (r, w') \<Rightarrow>
                            (case r of
                               Some DBWarning \<Rightarrow>
                                 populate_loop B tname commandString ignoreString cols conflict
                                   (ing\<lparr>parser := p', lastRecordIngested := latestRecordNum p',
                                        logged := logged ing @ [WarnStatement DBWarning]\<rparr>, w')
                             | Some IntegrityError \<Rightarrow>
                                 populate_loop B tname commandString ignoreString cols conflict
                                   (ing\<lparr>parser := p', lastRecordIngested := latestRecordNum p',
                                        logged := logged ing @ [ErrorStatement IntegrityError]\<rparr>, w')
                             | Some DBError \<Rightarrow>
                                 (Some DBError,
                                  (ing\<lparr>parser := p',
                                       logged := logged ing @ [ErrorStatement DBError]\<rparr>, w'))
                             | Some e \<Rightarrow> (Some e, (ing\<lparr>parser := p'\<rparr>, w'))
                             | None \<Rightarrow>
                                 populate_loop B tname commandString ignoreString cols conflict
                                   (ing\<lparr>parser := p', lastRecordIngested := latestRecordNum p'\<rparr>,
                                    w'))))))"
  by pat_completeness auto
termination
  by (relation "measure (\<lambda>(B, tname, cmd, ign, cols, conflict, s). length (rest (parser (fst s))))")
     (auto dest!: nextRecords_nonempty_shorter[OF sym])

declare populate_loop.simps [simp del]

definition populateTable ::
  "'w backend \<Rightarrow> string \<Rightarrow> int \<Rightarrow> bool \<Rightarrow> bool \<Rightarrow> 'w run \<Rightarrow> exn option \<times> 'w run" where
  "populateTable B tname resumeNum isIncremental skipKeyViolators s =
     (case s of (ing, w) \<Rightarrow>
        (let commandString = (if isIncremental \<and> isMysql ing then ''REPLACE'' else ''INSERT'');
             ignoreString = (if skipKeyViolators \<and> \<not> isIncremental \<and> isMysql ing
                             then ''IGNORE'' else []);
             cols = columnNames (parser ing);
             conflict = (if isPostgresql ing \<and> skipKeyViolators
                         then Some (primaryKey (parser ing)) else None)
         in case seekToRecord resumeNum (parser ing) of
              Inl e \<Rightarrow> (Some e, s)
            | Inr p \<Rightarrow>
                and_then (populate_loop B tname commandString ignoreString cols conflict)
                  (and_then
                     (createCustomIndexes B
                        (case str_split_loop ''.'' (fileName ing) of [] \<Rightarrow> [] | t # ts \<Rightarrow> t) tname)
                     (run_stmt B (Analyze tname)))
                  (ing\<lparr>parser := p\<rparr>, w)))"

section \<open>Ingester: the table swap\<close>

text \<open>
  \<^verbatim>\<open>_renameAndDrop(sourceTable, targetTable)\<close>. Only the renaming of the source is inside
  the \<^verbatim>\<open>try\<close>; its handlers catch the drivers' \<^verbatim>\<open>Error\<close> classes and set \<open>revert\<close>.
  The function returns normally after a revert.
\<close>

definition rename_with_index :: "'w backend \<Rightarrow> string \<Rightarrow> string \<Rightarrow> 'w run \<Rightarrow> exn option \<times> 'w run" where
  "rename_with_index B a b s =
     (case s of (ing, w) \<Rightarrow>
        and_then (run_stmt B (RenameTable a b))
          (if isPostgresql ing then run_stmt B (RenameIndex (a @ ''_pk'') (b @ ''_pk''))
           else skip_step) s)"

definition renameAndDrop :: "'w backend \<Rightarrow> string \<Rightarrow> string \<Rightarrow> 'w run \<Rightarrow> exn option \<times> 'w run" where
  "renameAndDrop B sourceTable targetTable s =
     (let targetOld = targetTable @ ''_old'' in
      and_then (run_stmt B (DropTableIfExists targetOld))
        (and_then
           (\<lambda>s1. if tableExistsQ B targetTable (snd s1)
                 then rename_with_index B targetTable targetOld s1
                 else (None, s1))
           (\<lambda>s2. case rename_with_index B sourceTable targetTable s2 of
                   (None, s3) \<Rightarrow> run_stmt B (DropTableIfExists targetOld) s3
                 | (Some e, s3) \<Rightarrow>
                     if is_db_error e
                     then and_then
                            (\<lambda>s4. if tableExistsQ B targetOld (snd s4)
                                  then rename_with_index B targetOld targetTable s4
                                  else (None, s4))
                            (run_stmt B (DropTableIfExists targetOld))
                            (log_event ErrorRevert (log_event (ErrorStatement e) s3))
                     else (Some e, s3))) s)"

section \<open>Ingester: the union merge\<close>

fun str_join :: "string \<Rightarrow> string list \<Rightarrow> string" where
  "str_join sep [] = []"
| "str_join sep [x] = x"
| "str_join sep (x # y # ys) = x @ sep @ str_join sep (y # ys)"

definition incrementalWhereClause :: "ingester \<Rightarrow> string" where
  "incrementalWhereClause ing =
     ''WHERE '' @ tableName ing @ ''.export_date <= '' @ incTableName ing @ ''.export_date AND ''
       @ str_join '' AND ''
           (map (\<lambda>aCol. tableName ing @ ''.'' @ aCol @ ''='' @ incTableName ing @ ''.'' @ aCol)
              (primaryKey (parser ing)))"

definition incrementalSelectString :: "ingester \<Rightarrow> string" where
  "incrementalSelectString ing =
     ''SELECT * FROM '' @ tableName ing @ '' WHERE 0 = (SELECT COUNT(*) FROM ''
       @ incTableName ing @ '' '' @ incrementalWhereClause ing @ '')''"

definition incrementalUnionString :: "ingester \<Rightarrow> string" where
  "incrementalUnionString ing =
     (if isPostgresql ing
      then ''SELECT * FROM '' @ incTableName ing @ '' UNION ALL '' @ incrementalSelectString ing
      else ''IGNORE SELECT * FROM '' @ incTableName ing @ '' UNION ALL ''
             @ incrementalSelectString ing)"

definition createUnionTable :: "'w backend \<Rightarrow> 'w run \<Rightarrow> exn option \<times> 'w run" where
  "createUnionTable B s =
     (case s of (ing, w) \<Rightarrow>
        and_then (run_stmt B (DropTableIfExists (unionTableName ing)))
          (run_stmt B (CreateTableAs (unionTableName ing) (incrementalUnionString ing))) s)"

section \<open>Ingester: the three ingest strategies\<close>

text \<open>What the handler \<^verbatim>\<open>except (MySQLdb.Error, psycopg2.Error)\<close> of \<^verbatim>\<open>ingestFull\<close>
  and \<^verbatim>\<open>ingestIncremental\<close> does before it raises the error again.\<close>

definition abort_run :: "'w backend \<Rightarrow> 'w run \<Rightarrow> 'w run" where
  "abort_run B s =
     (case s of (ing, w) \<Rightarrow>
        (updateStatusDict
           (ing\<lparr>logged := logged ing @ [ErrorFatal (lastRecordIngested ing)],
                abortTime := Some (now B w), didAbort := True\<rparr>), w))"

text \<open>The end of \<^verbatim>\<open>ingestFull\<close> and of \<^verbatim>\<open>ingestIncremental\<close>, given what the \<^verbatim>\<open>try\<close>
  block did: a driver error aborts the run and is raised again, any other exception
  passes through, and a run that raised nothing gets its end time and a fresh status.\<close>

definition finish_run :: "'w backend \<Rightarrow> exn option \<times> 'w run \<Rightarrow> exn option \<times> 'w run" where
  "finish_run B r =
     (case r of
        (Some e, s') \<Rightarrow> if is_db_error e then (Some e, abort_run B s') else (Some e, s')
      | (None, (ing', w')) \<Rightarrow>
          (None, (updateStatusDict (ing'\<lparr>endTime := Some (now B w')\<rparr>), w')))"

definition ingestFull :: "'w backend \<Rightarrow> bool \<Rightarrow> 'w run \<Rightarrow> exn option \<times> 'w run" where
  "ingestFull B skipKeyViolators s =
     (case s of (ing, w) \<Rightarrow>
        finish_run B
          (and_then (createTable B (tmpTableName ing))
             (and_then (populateTable B (tmpTableName ing) 0 False skipKeyViolators)
                (renameAndDrop B (tmpTableName ing) (tableName ing)))
             (ing\<lparr>startTime := Some (now B w)\<rparr>, w)))"

definition ingestFullResume :: "'w backend \<Rightarrow> int \<Rightarrow> bool \<Rightarrow> 'w run \<Rightarrow> exn option \<times> 'w run" where
  "ingestFullResume B fromRecord skipKeyViolators s =
     (case s of (ing, w) \<Rightarrow>
        (case and_then (populateTable B (tmpTableName ing) fromRecord False skipKeyViolators)
                (renameAndDrop B (tmpTableName ing) (tableName ing))
                (ing\<lparr>lastRecordIngested := fromRecord - 1, startTime := Some (now B w)\<rparr>, w) of
           (Some e, (ing', w')) \<Rightarrow>
             if is_db_error e
             then (Some e, (ing'\<lparr>logged := logged ing' @ [ErrorFatal (lastRecordIngested ing')]\<rparr>, w'))
             else (Some e, (ing', w'))
         | (None, (ing', w')) \<Rightarrow> (None, (ing'\<lparr>endTime := Some (now B w')\<rparr>, w'))))"

text \<open>The choice between the two incremental techniques, and the two techniques.\<close>

definition update_in_place :: "ingester \<Rightarrow> bool" where
  "update_in_place ing = (isPostgresql ing \<or> recordsExpected (parser ing) < 500000)"

definition incremental_in_place :: "'w backend \<Rightarrow> int \<Rightarrow> bool \<Rightarrow> 'w run \<Rightarrow> exn option \<times> 'w run" where
  "incremental_in_place B fromRecord skipKeyViolators s =
     populateTable B (tableName (fst s)) fromRecord True skipKeyViolators s"

definition incremental_merge :: "'w backend \<Rightarrow> bool \<Rightarrow> 'w run \<Rightarrow> exn option \<times> 'w run" where
  "incremental_merge B skipKeyViolators s =
     (case s of (ing, w) \<Rightarrow>
        and_then (createTable B (incTableName ing))
          (and_then (populateTable B (incTableName ing) 0 False skipKeyViolators)
             (and_then (createUnionTable B)
                (and_then (dropTable B (incTableName ing))
                   (and_then (applyPrimaryKeyConstraints B (unionTableName ing))
                      (renameAndDrop B (unionTableName ing) (tableName ing)))))) s)"

text \<open>The trimming of the column names to the number of columns of the existing table,
  with its warning.\<close>

definition trim_columns :: "nat \<Rightarrow> ingester \<Rightarrow> ingester" where
  "trim_columns tableColCount ing =
     (if length (columnNames (parser ing)) > tableColCount
      then ing\<lparr>logged := logged ing @ [WarnExtraColumns],
               parser := (parser ing)
                 \<lparr>columnNames := take tableColCount (columnNames (parser ing))\<rparr>\<rparr>
      else ing)"

definition ingestIncremental :: "'w backend \<Rightarrow> int \<Rightarrow> bool \<Rightarrow> 'w run \<Rightarrow> exn option \<times> 'w run" where
  "ingestIncremental B fromRecord skipKeyViolators s =
     (case s of (ing, w) \<Rightarrow>
        if \<not> tableExistsQ B (tableName ing) w
        then (None, (updateStatusDict
                       (ing\<lparr>logged := logged ing @ [WarnTableMissing (tableName ing)]\<rparr>), w))
        else
          (let tableColCount = columnCountQ B (tableName ing) w;
               fileColCount = length (columnNames (parser ing))
           in if \<not> tableColCount \<le> fileColCount then (Some AssertionError, s)
              else
                (let ing2 = (trim_columns tableColCount ing)\<lparr>startTime := Some (now B w)\<rparr>
                 in finish_run B
                      (if update_in_place ing2
                       then incremental_in_place B fromRecord skipKeyViolators (ing2, w)
                       else incremental_merge B skipKeyViolators (ing2, w)))))"

definition ingest :: "'w backend \<Rightarrow> bool \<Rightarrow> 'w run \<Rightarrow> exn option \<times> 'w run" where
  "ingest B skipKeyViolators s =
     (if exportMode (parser (fst s)) = Some ''INCREMENTAL''
      then ingestIncremental B 0 skipKeyViolators s
      else ingestFull B skipKeyViolators s)"

section \<open>A reference store\<close>

text \<open>
  A store at the level of statements, used to run the ingester on concrete inputs and to
  study the table swap. Its catalog binds table names to tables; a table is its column
  definitions and the rows it has received, in order. Constraints, indexes and
  transactions are not part of it: \<open>InsertRows\<close> appends, \<open>RenameIndex\<close>, \<open>AddPrimaryKey\<close>,
  \<open>CreateIndex\<close> and \<open>Analyze\<close> leave the catalog as it is. \<open>faulty\<close> injects failures:
  a statement it selects raises a driver error and changes nothing. \<open>select\<close> evaluates
  the query of \<open>CreateTableAs\<close>. \<open>executed\<close> lists the statements the store was sent, in
  order (a statement that raised included); the time is their number.
\<close>

record table =
  columns :: "(string \<times> string) list"
  rows :: "string list list"

record store =
  catalog :: "string \<rightharpoonup> table"
  executed :: "stmt list"

definition store_exec ::
  "(stmt \<Rightarrow> bool) \<Rightarrow> (string \<Rightarrow> store \<Rightarrow> table) \<Rightarrow> stmt \<Rightarrow> store \<Rightarrow> exn option \<times> store" where
  "store_exec faulty select st w =
     (let w1 = w\<lparr>executed := executed w @ [st]\<rparr> in
      if faulty st then (Some DBError, w1)
      else (case st of
              DropTableIfExists t \<Rightarrow> (None, w1\<lparr>catalog := (catalog w)(t := None)\<rparr>)
            | CreateTable t cols \<Rightarrow>
                if catalog w t \<noteq> None then (Some DBError, w1)
                else (None, w1\<lparr>catalog := (catalog w)(t \<mapsto> \<lparr>columns = cols, rows = []\<rparr>)\<rparr>)
            | AddPrimaryKey t c pk \<Rightarrow>
                if catalog w t = None then (Some DBError, w1) else (None, w1)
            | RenameTable a b \<Rightarrow>
                if catalog w a = None \<or> catalog w b \<noteq> None then (Some DBError, w1)
                else (None, w1\<lparr>catalog := (catalog w)(a := None, b := catalog w a)\<rparr>)
            | RenameIndex a b \<Rightarrow> (None, w1)
            | InsertRows cmd ign t cols rws conflict \<Rightarrow>
                (case catalog w t of
                   None \<Rightarrow> (Some DBError, w1)
                 | Some tb \<Rightarrow>
                     (None, w1\<lparr>catalog := (catalog w)(t \<mapsto> tb\<lparr>rows := rows tb @ rws\<rparr>)\<rparr>))
            | CreateTableAs t q \<Rightarrow>
                if catalog w t \<noteq> None then (Some DBError, w1)
                else (None, w1\<lparr>catalog := (catalog w)(t \<mapsto> select q w)\<rparr>)
            | CreateIndex t sql \<Rightarrow>
                if catalog w t = None then (Some DBError, w1) else (None, w1)
            | Analyze t \<Rightarrow>
                if catalog w t = None then (Some DBError, w1) else (None, w1)))"

definition store_backend_rt ::
  "(stmt \<Rightarrow> bool) \<Rightarrow> (string \<Rightarrow> store \<Rightarrow> table) \<Rightarrow> (field \<Rightarrow> string) \<Rightarrow> runtime
   \<Rightarrow> store backend" where
  "store_backend_rt faulty select lit rt =
     \<lparr>exec = store_exec faulty select,
      tableExistsQ = (\<lambda>t w. catalog w t \<noteq> None),
      columnCountQ = (\<lambda>t w. case catalog w t of None \<Rightarrow> 0 | Some tb \<Rightarrow> length (columns tb)),
      literal = lit, mogrify = lit, now = (\<lambda>w. length (executed w)), runtime = rt\<rparr>"

text \<open>A runtime for the examples: the year is given, the stack leaves 990 frames, and no
  value starts with a digit outside ASCII.\<close>

definition sample_runtime :: "int \<Rightarrow> runtime" where
  "sample_runtime yr = \<lparr>today_year = yr, frames = 990, nonascii_isdigit = (\<lambda>v. False)\<rparr>"

definition store_backend ::
  "(stmt \<Rightarrow> bool) \<Rightarrow> (string \<Rightarrow> store \<Rightarrow> table) \<Rightarrow> (field \<Rightarrow> string) \<Rightarrow> int \<Rightarrow> store backend" where
  "store_backend faulty select lit yr = store_backend_rt faulty select lit (sample_runtime yr)"

section \<open>Sample inputs\<close>

text \<open>The values below are used in the examples only: the default delimiters of the feed
  format, an escaping function standing for the drivers', a store with no injected fault,
  and a way to write a feed row from its fields.\<close>

definition default_recordDelim :: string where
  "default_recordDelim = [CHR 0x02, CHR 0x0A]"

definition default_fieldDelim :: string where
  "default_fieldDelim = [CHR 0x01]"

definition sample_literal :: "field \<Rightarrow> string" where
  "sample_literal f = (case f of None \<Rightarrow> ''NULL'' | Some v \<Rightarrow> [CHR 0x27] @ v @ [CHR 0x27])"

definition no_faults :: "stmt \<Rightarrow> bool" where
  "no_faults st = False"

definition no_select :: "string \<Rightarrow> store \<Rightarrow> table" where
  "no_select q w = \<lparr>columns = [], rows = []\<rparr>"

definition empty_store :: store where
  "empty_store = \<lparr>catalog = Map.empty, executed = []\<rparr>"

definition feed_row :: "string list \<Rightarrow> string" where
  "feed_row vals = str_join default_fieldDelim vals @ default_recordDelim"

definition tar_header :: string where
  "tar_header = replicate TAR_HEADER_SIZE (CHR 0x00)"




text \<open>A feed whose header declares an empty primary key.\<close>

definition keyless_feed :: string where
  "keyless_feed = tar_header
     @ feed_row [''#id'', ''name'']
     @ feed_row [''#primaryKey:'']
     @ feed_row [''#dbTypes:INTEGER'', ''VARCHAR(100)'']
     @ feed_row [''#exportMode:FULL'']
     @ feed_row [''1'', ''a''] @ feed_row [''2'', ''b''] @ feed_row [''3'', ''c'']"


text \<open>A store holding one empty table, and the backend of the examples.\<close>

definition store_with :: "string \<Rightarrow> (string \<times> string) list \<Rightarrow> store" where
  "store_with tname cols =
     \<lparr>catalog = Map.empty(tname \<mapsto> \<lparr>columns = cols, rows = []\<rparr>), executed = []\<rparr>"

definition sample_backend :: "store backend" where
  "sample_backend = store_backend no_faults no_select sample_literal 2026"

section \<open>Notions used in the statements\<close>



text \<open>The rows of a batch that \<^verbatim>\<open>_escapeRecords\<close> keeps, given the set of key tuples
  already seen.\<close>

fun keep_first :: "nat list \<Rightarrow> row set \<Rightarrow> row list \<Rightarrow> row list" where
  "keep_first pkIdx S [] = []"
| "keep_first pkIdx S (r # rs) =
     (if key_tuple pkIdx r \<in> S then keep_first pkIdx S rs
      else r # keep_first pkIdx (insert (key_tuple pkIdx r) S) rs)"







section \<open>Batch de-duplication\<close>

lemma escapeRecords_loop_keep_first:
  "list_all (\<lambda>r. list_all (\<lambda>i. i < length r) pkIdx) recs \<Longrightarrow>
   escapeRecords_loop pkIdx lit keys recs = Inr (map (map lit) (keep_first pkIdx (dom keys) recs))"
proof (induction recs arbitrary: keys)
  case Nil
  then show ?case by simp
next
  case (Cons r rs)
  then show ?case by (auto simp: marker_def domIff)
qed

lemma keep_first_index:
  "keep_first pkIdx S recs =
   map (\<lambda>i. recs ! i)
     (filter (\<lambda>i. key_tuple pkIdx (recs ! i) \<notin> S \<and>
                  (\<forall>j<i. key_tuple pkIdx (recs ! j) \<noteq> key_tuple pkIdx (recs ! i)))
        [0..<length recs])"
proof (induction recs arbitrary: S)
  case Nil
  then show ?case by simp
next
  case (Cons r rs)
  have up: "[0..<length (r # rs)] = 0 # map Suc [0..<length rs]"
    by (simp add: upt_conv_Cons map_Suc_upt del: upt_Suc)
  show ?case
    unfolding up
    by (auto simp add: filter_map comp_def Cons.IH All_less_Suc2 simp del: upt_Suc
          intro!: arg_cong[where f="map ((!) rs)"] filter_cong)
qed

lemma earlier_keys_iff:
  "i < length recs \<Longrightarrow>
   (\<forall>j<i. key_tuple pkIdx (recs ! j) \<noteq> key_tuple pkIdx (recs ! i)) \<longleftrightarrow>
   key_tuple pkIdx (recs ! i) \<notin> set (map (key_tuple pkIdx) (take i recs))"
proof
  assume a: "\<forall>j<i. key_tuple pkIdx (recs ! j) \<noteq> key_tuple pkIdx (recs ! i)"
  show "key_tuple pkIdx (recs ! i) \<notin> set (map (key_tuple pkIdx) (take i recs))"
  proof
    assume "key_tuple pkIdx (recs ! i) \<in> set (map (key_tuple pkIdx) (take i recs))"
    then obtain j where "j < length (take i recs)"
      "key_tuple pkIdx (take i recs ! j) = key_tuple pkIdx (recs ! i)"
      by (auto simp: in_set_conv_nth)
    with a show False by simp
  qed
next
  assume i: "i < length recs"
    and a: "key_tuple pkIdx (recs ! i) \<notin> set (map (key_tuple pkIdx) (take i recs))"
  show "\<forall>j<i. key_tuple pkIdx (recs ! j) \<noteq> key_tuple pkIdx (recs ! i)"
  proof (intro allI impI notI)
    fix j assume j: "j < i" and e: "key_tuple pkIdx (recs ! j) = key_tuple pkIdx (recs ! i)"
    from i j have "recs ! j \<in> set (take i recs)"
      by (metis length_take less_imp_le_nat min.absorb2 nth_mem nth_take order_less_le_trans)
    with a e show False by (metis image_eqI set_map)
  qed
qed

lemma escapeRecords_keeps_first:
  assumes "list_all (\<lambda>r. list_all (\<lambda>i. i < length r) pkIdx) recordList"
  shows "escapeRecords pkIdx lit recordList =
         Inr (map (\<lambda>i. map lit (recordList ! i))
               (filter (\<lambda>i. key_tuple pkIdx (recordList ! i) \<notin>
                              set (map (key_tuple pkIdx) (take i recordList)))
                  [0..<length recordList]))"
proof -
  have "filter (\<lambda>i. \<forall>j<i. key_tuple pkIdx (recordList ! j) \<noteq> key_tuple pkIdx (recordList ! i))
          [0..<length recordList] =
        filter (\<lambda>i. key_tuple pkIdx (recordList ! i) \<notin>
                              set (map (key_tuple pkIdx) (take i recordList)))
          [0..<length recordList]"
    by (rule filter_cong) (simp_all add: earlier_keys_iff)
  with escapeRecords_loop_keep_first[OF assms, of lit Map.empty]
  show ?thesis
    by (simp add: escapeRecords_def keep_first_index comp_def)
qed

text \<open>
  Claim C1, as the code has it. For a batch in which every record reaches all primary-key
  columns, \<^verbatim>\<open>_escapeRecords\<close> returns the escaped records of exactly those positions whose
  primary-key tuple does not occur at an earlier position of the batch, in batch order:
  of the records that share a key tuple the first is kept and every later one is dropped.
\<close>

theorem escapeRecords_first_writer_wins:
  assumes "list_all (\<lambda>r. list_all (\<lambda>i. i < length r) pkIdx) recordList"
  shows "escapeRecords pkIdx lit recordList =
         Inr (map (\<lambda>i. map lit (recordList ! i))
               (filter (\<lambda>i. key_tuple pkIdx (recordList ! i) \<notin>
                              set (map (key_tuple pkIdx) (take i recordList)))
                  [0..<length recordList]))"
  using assms by (rule escapeRecords_keeps_first)

text \<open>Witness for C1: three records keyed on column 0, the third repeating the key of the
  first.\<close>

theorem escapeRecords_first_writer_wins_witness:
  "list_all (\<lambda>r. list_all (\<lambda>i. i < length r) [0])
      [[Some ''1'', Some ''a''], [Some ''2'', Some ''x''], [Some ''1'', Some ''b'']] \<and>
   escapeRecords [0] sample_literal
      [[Some ''1'', Some ''a''], [Some ''2'', Some ''x''], [Some ''1'', Some ''b'']]
     = Inr [map sample_literal [Some ''1'', Some ''a''], map sample_literal [Some ''2'', Some ''x'']]"
  using escapeRecords_first_writer_wins[of "[0]"
      "[[Some ''1'', Some ''a''], [Some ''2'', Some ''x''], [Some ''1'', Some ''b'']]" sample_literal]
  by (simp add: key_tuple_def)

text \<open>Counterexample to C1 as stated: of two records with the same key the writer receives
  the first, not the last.\<close>

theorem escapeRecords_last_writer_counterexample:
  "escapeRecords [0] sample_literal [[Some ''1'', Some ''a''], [Some ''1'', Some ''b'']]
     = Inr [map sample_literal [Some ''1'', Some ''a'']] \<and>
   escapeRecords [0] sample_literal [[Some ''1'', Some ''a''], [Some ''1'', Some ''b'']]
     \<noteq> Inr [map sample_literal [Some ''1'', Some ''b'']]"
  by (simp add: escapeRecords_def marker_def key_tuple_def sample_literal_def)

section \<open>Parser construction and the first rows of the file\<close>










lemma read_firstRows_numeral:
  "read_firstRows (numeral k) p =
     (case nextRowString False p of (r, p') \<Rightarrow>
        (case read_firstRows (pred_numeral k) p' of (rws, p'') \<Rightarrow>
           ((case r of None \<Rightarrow> [] | Some aRow \<Rightarrow> (if aRow = [] then [] else [aRow])) @ rws, p'')))"
  by (simp add: numeral_eq_Suc)

lemmas eval_parser =
  Parser_init_def Parser_fields_def nextRowString_def nextRowString_loop.simps
  readline_def splitRow_def str_partition_def str_split_def str_split_loop.simps
  tar_header_def TAR_HEADER_SIZE_def feed_row_def default_recordDelim_def
  default_fieldDelim_def commentChar_def primaryKeyTag_def dataTypesTag_def exportModeTag_def
  fixupDataTypes_def fixup_one_def map_types_def mysql_typeMap_def postgresql_typeMap_def
  numberTypes_def dateTypes_def suffix_to_prefix Let_def read_firstRows_numeral




section \<open>Header tags\<close>






















section \<open>Feeds without a primary key\<close>

lemma escapeRecords_loop_no_key_seen:
  "keys [] \<noteq> None \<Longrightarrow> escapeRecords_loop [] lit keys recs = Inr []"
  by (induction recs) (auto simp: marker_def key_tuple_def)

lemma escapeRecords_no_key:
  "escapeRecords [] lit (r # rs) = Inr [map lit r]"
  by (simp add: escapeRecords_def marker_def key_tuple_def escapeRecords_loop_no_key_seen)

lemma Parser_init_no_key:
  assumes "Parser_init content fsize tm rd fd = Inr p" "primaryKey p = []"
  shows "primaryKeyIndexes p = []"
proof -
  from assms(1) obtain p3 idx where
    pk: "pk_indexes (columnNames (fixupDataTypes p3)) (primaryKey (fixupDataTypes p3)) = Inr idx"
    and p: "p = (let p5 = map_types (fixupDataTypes p3\<lparr>primaryKeyIndexes := idx\<rparr>) in
                 p5\<lparr>typeMap := map_of (rev (zip (columnNames p5) (dataTypes p5)))\<rparr>)"
    by (auto simp: Parser_init_def Let_def split: sum.splits prod.splits)
  from assms(2) have "primaryKey p3 = []"
    by (simp add: p Let_def map_types_def fixupDataTypes_def)
  with pk show ?thesis
    by (simp add: p Let_def map_types_def fixupDataTypes_def)
qed

lemma Ingester_init_parser:
  "Ingester_init path tablePrefix dbt rd fd content fsize = Inr ing \<Longrightarrow>
   Parser_init content fsize (if dbt = ''postgresql'' then postgresql_typeMap else mysql_typeMap) rd fd
     = Inr (parser ing)"
  by (auto simp: Ingester_init_def Let_def updateStatusDict_def split: sum.splits prod.splits)

text \<open>
  Claim C9. For an ingester built on a feed whose parsed primary key is empty, every
  record of a batch gets the empty tuple as its marker: of a non-empty batch
  \<^verbatim>\<open>_escapeRecords\<close> returns the first record, escaped, and nothing else.
\<close>

theorem empty_primary_key_keeps_one_record:
  assumes "Ingester_init path tablePrefix dbt rd fd content fsize = Inr ing"
    and "primaryKey (parser ing) = []"
  shows "escapeRecords_of B ing (r # rs) =
         Inr [map (if isMysql ing then literal B else mogrify B) r]"
  using Parser_init_no_key[OF Ingester_init_parser[OF assms(1)] assms(2)]
  by (simp add: escapeRecords_of_def escapeRecords_no_key)

lemmas eval_ingester =
  Ingester_init_def prefix_and_schema_def basename_def replace_char_def updateStatusDict_def

lemma keyless_feed_ingester:
  "\<exists>ing. Ingester_init ''/data/genre'' None ''mysql'' default_recordDelim default_fieldDelim
            keyless_feed 1000 = Inr ing \<and> primaryKey (parser ing) = [] \<and> isMysql ing"
  by (simp add: eval_ingester eval_parser keyless_feed_def)

text \<open>Witness for C9: a batch of three distinct records of the keyless feed; only the
  first is returned.\<close>

theorem empty_primary_key_keeps_one_record_witness:
  "\<exists>ing. Ingester_init ''/data/genre'' None ''mysql'' default_recordDelim default_fieldDelim
            keyless_feed 1000 = Inr ing \<and>
         primaryKey (parser ing) = [] \<and>
         escapeRecords_of (store_backend no_faults no_select sample_literal 2026) ing
            [[Some ''1'', Some ''a''], [Some ''2'', Some ''b''], [Some ''3'', Some ''c'']]
           = Inr [map sample_literal [Some ''1'', Some ''a'']]"
proof -
  from keyless_feed_ingester obtain ing where
    i: "Ingester_init ''/data/genre'' None ''mysql'' default_recordDelim default_fieldDelim
          keyless_feed 1000 = Inr ing"
    and k: "primaryKey (parser ing) = []" and m: "isMysql ing" by blast
  from empty_primary_key_keeps_one_record[OF i k,
      of "store_backend no_faults no_select sample_literal 2026"
         "[Some ''1'', Some ''a'']" "[[Some ''2'', Some ''b''], [Some ''3'', Some ''c'']]"] i k m
  show ?thesis by (auto simp: store_backend_def store_backend_rt_def)
qed

section \<open>Numeric sanitization\<close>










end
